theory Spec2Isabelle
  imports Complex_Main
begin

section \<open>Values of the ingestion server\<close>

text \<open>
  A Python \<open>str\<close> is a sequence of Unicode code points, and \<open>len\<close> counts code points;
  it is modelled as a list of naturals. A \<open>bytes\<close> object is a list of 8-bit characters,
  that is an Isabelle \<open>string\<close>. \<open>py\<close> turns an ASCII literal into the \<open>str\<close> with the
  same characters.
\<close>

type_synonym pystr = "nat list"

definition py :: "string \<Rightarrow> pystr" where
  "py s = map of_char s"

text \<open>
  The value \<open>json.loads\<close> returns. Python keeps \<open>int\<close> and \<open>float\<close> apart; a \<open>float\<close> is
  modelled by the real number it denotes (rounding, infinities and NaN are outside the
  model). A \<open>dict\<close> is a map from keys to values.
\<close>

datatype json =
    JNull
  | JBool bool
  | JInt int
  | JFloat real
  | JStr pystr
  | JArr "json list"
  | JObj "pystr \<Rightarrow> json option"

text \<open>The exceptions that the server can meet; every class of \<open>sqlite3.Error\<close> is \<open>SqliteError\<close>.\<close>

datatype error =
    ValueError
  | TypeError
  | KeyError
  | AttributeError
  | OverflowError
  | RecursionError
  | JSONDecodeError
  | SqliteError

section \<open>sanitize\<close>

text \<open>
  \<^verbatim>\<open>SAFE_NAME = re.compile(r"^[a-zA-Z0-9_\-]+$")\<close>. The character class is \<open>safe_char\<close>.
  Without \<open>re.MULTILINE\<close>, \<open>$\<close> matches at the end of the string and also just before a
  line feed that is the last character of the string: this is \<open>dollar_at\<close>.
  \<open>SAFE_NAME.match\<close> anchors at position 0; the greedy \<open>+\<close> takes the longest run of class
  characters and backtracks over every shorter non-empty run until \<open>$\<close> matches.
\<close>

definition safe_char :: "nat \<Rightarrow> bool" where
  "safe_char c \<longleftrightarrow>
     (of_char CHR ''a'' \<le> c \<and> c \<le> of_char CHR ''z'') \<or>
     (of_char CHR ''A'' \<le> c \<and> c \<le> of_char CHR ''Z'') \<or>
     (of_char CHR ''0'' \<le> c \<and> c \<le> of_char CHR ''9'') \<or>
     c = of_char CHR ''_'' \<or> c = of_char CHR ''-''"

definition dollar_at :: "pystr \<Rightarrow> nat \<Rightarrow> bool" where
  "dollar_at s i \<longleftrightarrow> i = length s \<or> (Suc i = length s \<and> s ! i = 10)"

definition SAFE_NAME_match :: "pystr \<Rightarrow> bool" where
  "SAFE_NAME_match name \<longleftrightarrow>
     list_ex (dollar_at name) (rev [1 ..< Suc (length (takeWhile safe_char name))])"

text \<open>
  \<^verbatim>\<open>def sanitize(name): if not SAFE_NAME.match(name): raise ValueError(...); return name\<close>.
  \<open>re\<close> raises \<open>TypeError\<close> on an argument that is not a string.
\<close>

fun sanitize :: "json \<Rightarrow> error + pystr" where
  "sanitize (JStr name) = (if \<not> SAFE_NAME_match name then Inl ValueError else Inr name)"
| "sanitize _ = Inl TypeError"

section \<open>extract\_station\_location\<close>

text \<open>\<open>str.split(sep)\<close> with a one-character separator: the result always has at least one part.\<close>

fun split_sep :: "'a \<Rightarrow> 'a list \<Rightarrow> 'a list list" where
  "split_sep sep [] = [[]]"
| "split_sep sep (c # cs) =
     (if c = sep then [] # split_sep sep cs
      else (c # hd (split_sep sep cs)) # tl (split_sep sep cs))"

definition extract_station_location :: "pystr \<Rightarrow> pystr" where
  "extract_station_location station_id =
     (let parts = split_sep (of_char CHR ''_'') station_id
      in if length parts > 1 then last parts else station_id)"


section \<open>Storage\<close>

text \<open>
  What SQLite keeps in a cell: \<open>NULL\<close>, an integer, a real or a text.
\<close>

datatype sqlval = SqlNull | SqlInt int | SqlReal real | SqlText pystr

text \<open>
  A row of \<open>weather_data\<close> and a row of a per-station table, with the columns of the two
  \<open>CREATE TABLE\<close> statements.
\<close>

record grow =
  g_id :: nat
  g_station_id :: sqlval
  g_timestamp :: sqlval
  g_temperature :: sqlval
  g_humidity :: sqlval
  g_wind :: sqlval

record srow =
  s_id :: nat
  s_timestamp :: sqlval
  s_temperature :: sqlval
  s_humidity :: sqlval
  s_wind :: sqlval

text \<open>
  A table is its rows in insertion order and the value that \<open>sqlite_sequence\<close> holds for
  it (the largest id ever given out by \<open>AUTOINCREMENT\<close>). The constructor records which of
  the two schemas the table was created with. The database file is a map from table
  names to tables; SQLite compares names without regard to ASCII case, so keys are in
  lower case.
\<close>

datatype tbl = GlobalTable "grow list" nat | StationTable "srow list" nat

type_synonym store = "pystr \<Rightarrow> tbl option"

definition weather_data :: pystr where
  "weather_data = py ''weather_data''"

text \<open>
  \<open>init_database\<close>: \<^verbatim>\<open>CREATE TABLE IF NOT EXISTS weather_data (...)\<close>, then commit and
  close. The statement does nothing when a table of that name exists. (The storage
  medium is taken to be writable.)
\<close>

definition init_database :: "store \<Rightarrow> store" where
  "init_database db =
     (case db weather_data of
        Some t \<Rightarrow> db
      | None \<Rightarrow> db(weather_data \<mapsto> GlobalTable [] 0))"

text \<open>
  The library functions that the server calls and whose results depend on more than the
  model holds are parameters of it:
  \<^item> \<open>utf8_decode_replace\<close>: \<^verbatim>\<open>bytes.decode("utf-8", errors="replace")\<close>, which never raises;
  \<^item> \<open>json_loads\<close>: \<^verbatim>\<open>json.loads\<close>, which raises \<open>JSONDecodeError\<close> on a text that is not
    JSON and can raise other exceptions (\<open>RecursionError\<close> on deep nesting);
  \<^item> \<open>sqlite_text_to_real\<close>: the number SQLite reads from a text that is stored into a
    column of \<open>REAL\<close> affinity, when the text looks like a number;
  \<^item> \<open>sqlite_int_to_real\<close>: the floating-point value of a 64-bit integer that is stored
    into a column of \<open>REAL\<close> affinity;
  \<^item> \<open>sqlite_num_to_text\<close>: the text of a number that is stored into a column of \<open>TEXT\<close>
    affinity.
\<close>

record env =
  utf8_decode_replace :: "string \<Rightarrow> pystr"
  json_loads :: "pystr \<Rightarrow> error + json"
  sqlite_text_to_real :: "pystr \<Rightarrow> real option"
  sqlite_int_to_real :: "int \<Rightarrow> real"
  sqlite_num_to_text :: "sqlval \<Rightarrow> pystr"

text \<open>Sequencing of steps that can raise: the first exception ends the sequence.\<close>

fun andthen :: "error + 'a \<Rightarrow> ('a \<Rightarrow> error + 'b) \<Rightarrow> error + 'b" where
  "andthen (Inl e) f = Inl e"
| "andthen (Inr x) f = f x"

text \<open>
  How the \<open>sqlite3\<close> module binds a Python value to a \<open>?\<close> placeholder: \<open>None\<close> is \<open>NULL\<close>,
  \<open>bool\<close> and \<open>int\<close> are integers (an \<open>int\<close> outside 64 bits raises \<open>OverflowError\<close>), \<open>float\<close>
  is a real, \<open>str\<close> is a text (a lone surrogate cannot be encoded and raises
  \<open>UnicodeEncodeError\<close>, a \<open>ValueError\<close>); \<open>list\<close> and \<open>dict\<close> are not supported.
\<close>

definition surrogate :: "nat \<Rightarrow> bool" where
  "surrogate c \<longleftrightarrow> 0xD800 \<le> c \<and> c \<le> 0xDFFF"

fun bind_param :: "json \<Rightarrow> error + sqlval" where
  "bind_param JNull = Inr SqlNull"
| "bind_param (JBool b) = Inr (SqlInt (if b then 1 else 0))"
| "bind_param (JInt i) =
     (if - (2 ^ 63) \<le> i \<and> i < 2 ^ 63 then Inr (SqlInt i) else Inl OverflowError)"
| "bind_param (JFloat x) = Inr (SqlReal x)"
| "bind_param (JStr s) = (if list_ex surrogate s then Inl ValueError else Inr (SqlText s))"
| "bind_param (JArr xs) = Inl SqliteError"
| "bind_param (JObj d) = Inl SqliteError"

text \<open>Column affinity: what a bound value becomes when it is stored into a column.\<close>

definition real_affinity :: "env \<Rightarrow> sqlval \<Rightarrow> sqlval" where
  "real_affinity E v =
     (case v of
        SqlInt i \<Rightarrow> SqlReal (sqlite_int_to_real E i)
      | SqlText s \<Rightarrow> (case sqlite_text_to_real E s of Some x \<Rightarrow> SqlReal x | None \<Rightarrow> SqlText s)
      | _ \<Rightarrow> v)"

definition text_affinity :: "env \<Rightarrow> sqlval \<Rightarrow> sqlval" where
  "text_affinity E v =
     (case v of
        SqlInt i \<Rightarrow> SqlText (sqlite_num_to_text E v)
      | SqlReal x \<Rightarrow> SqlText (sqlite_num_to_text E v)
      | _ \<Rightarrow> v)"

text \<open>
  A connection sees the committed content of the file (\<open>durable\<close>) and its own
  transaction (\<open>work\<close>). The \<open>sqlite3\<close> module opens a transaction before the first
  \<open>INSERT\<close> and no longer commits before a \<open>CREATE TABLE\<close>, so every statement of a
  connection acts on \<open>work\<close> until \<open>commit\<close>. A connection that is closed, or dropped by
  an exception, without \<open>commit\<close> leaves the file as \<open>durable\<close> has it. (For how long a
  dropped connection keeps its lock on the file is a matter of time and is not
  modelled: every call finds the file free.)
\<close>

record conn =
  durable :: store
  work :: store

definition get_db :: "store \<Rightarrow> conn" where
  "get_db db = \<lparr>durable = db, work = db\<rparr>"

definition commit :: "conn \<Rightarrow> conn" where
  "commit c = c\<lparr>durable := work c\<rparr>"

definition close :: "conn \<Rightarrow> store" where
  "close c = durable c"

text \<open>
  \<open>INTEGER PRIMARY KEY AUTOINCREMENT\<close>: the new id is one more than the largest of the
  ids in the table and the sequence value.
\<close>

definition next_id :: "nat list \<Rightarrow> nat \<Rightarrow> nat" where
  "next_id ids seq = Suc (fold max ids seq)"

text \<open>
  \<^verbatim>\<open>INSERT INTO weather_data (station_id, timestamp, temperature, humidity, wind)
  VALUES (?, ?, ?, ?, ?)\<close>. Preparing the statement fails when the table is missing or
  has no \<open>station_id\<close> column; then the parameters are bound in order.
\<close>

definition insert_weather_data ::
  "env \<Rightarrow> conn \<Rightarrow> json \<times> json \<times> json \<times> json \<times> json \<Rightarrow> error + conn" where
  "insert_weather_data E c params =
     (case params of (p1, p2, p3, p4, p5) \<Rightarrow>
       (case work c weather_data of
          None \<Rightarrow> Inl SqliteError
        | Some (StationTable rows seq) \<Rightarrow> Inl SqliteError
        | Some (GlobalTable rows seq) \<Rightarrow>
            andthen (bind_param p1) (\<lambda>v1.
            andthen (bind_param p2) (\<lambda>v2.
            andthen (bind_param p3) (\<lambda>v3.
            andthen (bind_param p4) (\<lambda>v4.
            andthen (bind_param p5) (\<lambda>v5.
              let new = next_id (map g_id rows) seq;
                  row = \<lparr>g_id = new,
                         g_station_id = text_affinity E v1,
                         g_timestamp = real_affinity E v2,
                         g_temperature = real_affinity E v3,
                         g_humidity = real_affinity E v4,
                         g_wind = real_affinity E v5\<rparr>
              in Inr (c\<lparr>work := (work c)(weather_data \<mapsto> GlobalTable (rows @ [row]) new)\<rparr>))))))))"

text \<open>
  The per-station statements interpolate \<open>table\<close> into the SQL text without quotes. The
  text reaches SQLite as a table name only when it is one identifier token: a letter or
  \<open>_\<close> followed by letters, digits and \<open>_\<close>. (No SQL keyword ends in \<open>_data\<close>. A digit in
  front, a \<open>-\<close> or a line feed make the statement a syntax error; other characters
  cannot come out of \<open>sanitize\<close>.) The name is then compared in lower case.
\<close>

definition ascii_letter :: "nat \<Rightarrow> bool" where
  "ascii_letter c \<longleftrightarrow>
     (of_char CHR ''a'' \<le> c \<and> c \<le> of_char CHR ''z'') \<or>
     (of_char CHR ''A'' \<le> c \<and> c \<le> of_char CHR ''Z'')"

definition ident_char :: "nat \<Rightarrow> bool" where
  "ident_char c \<longleftrightarrow>
     ascii_letter c \<or> (of_char CHR ''0'' \<le> c \<and> c \<le> of_char CHR ''9'') \<or> c = of_char CHR ''_''"

definition ascii_lower :: "nat \<Rightarrow> nat" where
  "ascii_lower c = (if of_char CHR ''A'' \<le> c \<and> c \<le> of_char CHR ''Z'' then c + 32 else c)"

definition table_name :: "pystr \<Rightarrow> error + pystr" where
  "table_name text =
     (case text of
        [] \<Rightarrow> Inl SqliteError
      | c # cs \<Rightarrow>
          if (ascii_letter c \<or> c = of_char CHR ''_'') \<and> list_all ident_char cs
          then Inr (map ascii_lower text)
          else Inl SqliteError)"

text \<open>
  \<^verbatim>\<open>CREATE TABLE IF NOT EXISTS {table} (id INTEGER PRIMARY KEY AUTOINCREMENT,
  timestamp REAL NOT NULL, temperature REAL, humidity REAL, wind REAL)\<close>. Names that
  begin with \<open>sqlite_\<close> are reserved; an existing table of that name, whatever its
  columns, makes the statement do nothing.
\<close>

definition create_station_table :: "conn \<Rightarrow> pystr \<Rightarrow> error + conn" where
  "create_station_table c table =
     andthen (table_name table) (\<lambda>name.
       if take 7 name = py ''sqlite_'' then Inl SqliteError
       else (case work c name of
               Some t \<Rightarrow> Inr c
             | None \<Rightarrow> Inr (c\<lparr>work := (work c)(name \<mapsto> StationTable [] 0)\<rparr>)))"

text \<open>
  \<^verbatim>\<open>INSERT INTO {table} (timestamp, temperature, humidity, wind) VALUES (?, ?, ?, ?)\<close>.
  The parameters are stored into the columns in the order given. In a table with the
  columns of \<open>weather_data\<close> the column \<open>station_id\<close> gets its default \<open>NULL\<close>; in a
  per-station table \<open>timestamp\<close> is \<open>NOT NULL\<close>.
\<close>

definition insert_station_table ::
  "env \<Rightarrow> conn \<Rightarrow> pystr \<Rightarrow> json \<times> json \<times> json \<times> json \<Rightarrow> error + conn" where
  "insert_station_table E c table params =
     (case params of (p1, p2, p3, p4) \<Rightarrow>
       andthen (table_name table) (\<lambda>name.
         (case work c name of
            None \<Rightarrow> Inl SqliteError
          | Some t \<Rightarrow>
              andthen (bind_param p1) (\<lambda>v1.
              andthen (bind_param p2) (\<lambda>v2.
              andthen (bind_param p3) (\<lambda>v3.
              andthen (bind_param p4) (\<lambda>v4.
                (case t of
                   GlobalTable rows seq \<Rightarrow>
                     let new = next_id (map g_id rows) seq;
                         row = \<lparr>g_id = new,
                                g_station_id = SqlNull,
                                g_timestamp = real_affinity E v1,
                                g_temperature = real_affinity E v2,
                                g_humidity = real_affinity E v3,
                                g_wind = real_affinity E v4\<rparr>
                     in Inr (c\<lparr>work := (work c)(name \<mapsto> GlobalTable (rows @ [row]) new)\<rparr>)
                 | StationTable rows seq \<Rightarrow>
                     let new = next_id (map s_id rows) seq;
                         row = \<lparr>s_id = new,
                                s_timestamp = real_affinity E v1,
                                s_temperature = real_affinity E v2,
                                s_humidity = real_affinity E v3,
                                s_wind = real_affinity E v4\<rparr>
                     in if s_timestamp row = SqlNull then Inl SqliteError
                        else Inr (c\<lparr>work := (work c)(name \<mapsto> StationTable (rows @ [row]) new)\<rparr>)))))))))"

section \<open>save\_station\_data\<close>

text \<open>\<open>data[key]\<close>: \<open>KeyError\<close> on a missing key, \<open>TypeError\<close> when \<open>data\<close> is not a \<open>dict\<close>.\<close>

definition subscript :: "json \<Rightarrow> pystr \<Rightarrow> error + json" where
  "subscript data key =
     (case data of
        JObj d \<Rightarrow> (case d key of None \<Rightarrow> Inl KeyError | Some v \<Rightarrow> Inr v)
      | _ \<Rightarrow> Inl TypeError)"

text \<open>The statements between \<open>get_db()\<close> and \<open>conn.commit()\<close>, in the order of the source.\<close>

definition statements :: "env \<Rightarrow> conn \<Rightarrow> json \<Rightarrow> pystr \<Rightarrow> error + conn" where
  "statements E c data table =
     andthen (subscript data (py ''station_id'')) (\<lambda>a1.
     andthen (subscript data (py ''timestamp'')) (\<lambda>a2.
     andthen (subscript data (py ''temperature'')) (\<lambda>a3.
     andthen (subscript data (py ''humidity'')) (\<lambda>a4.
     andthen (subscript data (py ''wind'')) (\<lambda>a5.
     andthen (insert_weather_data E c (a1, a2, a3, a4, a5)) (\<lambda>c1.
     andthen (create_station_table c1 table) (\<lambda>c2.
     andthen (subscript data (py ''timestamp'')) (\<lambda>b1.
     andthen (subscript data (py ''temperature'')) (\<lambda>b2.
     andthen (subscript data (py ''wind'')) (\<lambda>b3.
     andthen (subscript data (py ''humidity'')) (\<lambda>b4.
       insert_station_table E c2 table (b1, b2, b3, b4))))))))))))"

text \<open>
  \<open>save_station_data\<close> returns the outcome of the call (\<open>Inl\<close> the exception raised) and
  the content of the database file after it. Only \<open>conn.commit()\<close>, the last step but
  one, changes the file; when a statement raises, the connection is dropped with its
  transaction.
\<close>

definition save_station_data :: "env \<Rightarrow> store \<Rightarrow> json \<Rightarrow> (error + unit) \<times> store" where
  "save_station_data E db data =
     (case andthen (subscript data (py ''station_id'')) sanitize of
        Inl e \<Rightarrow> (Inl e, db)
      | Inr station \<Rightarrow>
          let table = station @ py ''_data'';
              conn = get_db db
          in (case statements E conn data table of
                Inl e \<Rightarrow> (Inl e, close conn)
              | Inr c \<Rightarrow> (Inr (), close (commit c))))"

section \<open>get\_latest\_data\<close>

text \<open>
  \<^verbatim>\<open>SELECT station_id, timestamp, temperature, humidity, wind FROM weather_data
  ORDER BY id DESC LIMIT ?\<close>. A negative \<open>LIMIT\<close> puts no bound on the number of rows.
  The cells come back as SQLite holds them.
\<close>

type_synonym reading_row = "sqlval \<times> sqlval \<times> sqlval \<times> sqlval \<times> sqlval"

definition select_columns :: "grow \<Rightarrow> reading_row" where
  "select_columns r = (g_station_id r, g_timestamp r, g_temperature r, g_humidity r, g_wind r)"

definition get_latest_data :: "store \<Rightarrow> int \<Rightarrow> error + reading_row list" where
  "get_latest_data db limit =
     (case db weather_data of
        Some (GlobalTable rows seq) \<Rightarrow>
          let ordered = rev (sort_key g_id rows)
          in Inr (map select_columns (if limit < 0 then ordered else take (nat limit) ordered))
      | _ \<Rightarrow> Inl SqliteError)"

section \<open>handle\_web\<close>

text \<open>
  The rows of the page: the label of each row is \<open>extract_station_location\<close> of its
  \<open>station_id\<close> (\<open>None.split\<close> raises \<open>AttributeError\<close>); the other cells are shown as they
  are (the \<open>.2f\<close> format of the timestamp raises \<open>TypeError\<close> on \<open>None\<close> and \<open>ValueError\<close> on a
  \<open>str\<close>; the digits it prints are not modelled). The handler reads the database and never
  writes it.
\<close>

fun web_row :: "reading_row \<Rightarrow> error + (pystr \<times> sqlval \<times> sqlval \<times> sqlval \<times> sqlval)" where
  "web_row (SqlText s, ts, t, h, w) =
     (case ts of
        SqlReal x \<Rightarrow> Inr (extract_station_location s, ts, t, h, w)
      | SqlInt i \<Rightarrow> Inr (extract_station_location s, ts, t, h, w)
      | SqlNull \<Rightarrow> Inl TypeError
      | SqlText x \<Rightarrow> Inl ValueError)"
| "web_row (_, ts, t, h, w) = Inl AttributeError"

fun web_rows :: "reading_row list \<Rightarrow> error + (pystr \<times> sqlval \<times> sqlval \<times> sqlval \<times> sqlval) list" where
  "web_rows [] = Inr []"
| "web_rows (r # rs) =
     andthen (web_row r) (\<lambda>x. andthen (web_rows rs) (\<lambda>xs. Inr (x # xs)))"

definition handle_web :: "store \<Rightarrow> error + (pystr \<times> sqlval \<times> sqlval \<times> sqlval \<times> sqlval) list" where
  "handle_web db = andthen (get_latest_data db 40) web_rows"

section \<open>process\_message\<close>

text \<open>
  \<^verbatim>\<open>required = {"station_id", "timestamp", "temperature", "humidity", "wind"}\<close> and
  \<^verbatim>\<open>required.issubset(data)\<close>: the argument is iterated and its elements hashed. A \<open>dict\<close>
  gives its keys, a \<open>list\<close> its elements (\<open>TypeError\<close> when one is a \<open>list\<close> or a \<open>dict\<close>,
  which are unhashable), a \<open>str\<close> its characters; \<open>None\<close>, \<open>bool\<close>, \<open>int\<close> and \<open>float\<close> are
  not iterable.
\<close>

definition required :: "pystr list" where
  "required = [py ''station_id'', py ''timestamp'', py ''temperature'', py ''humidity'', py ''wind'']"

fun hashable :: "json \<Rightarrow> bool" where
  "hashable (JArr xs) = False"
| "hashable (JObj d) = False"
| "hashable _ = True"

definition issubset_required :: "json \<Rightarrow> error + bool" where
  "issubset_required data =
     (case data of
        JObj d \<Rightarrow> Inr (list_all (\<lambda>k. d k \<noteq> None) required)
      | JArr xs \<Rightarrow>
          if list_all hashable xs then Inr (list_all (\<lambda>k. JStr k \<in> set xs) required)
          else Inl TypeError
      | JStr s \<Rightarrow> Inr (list_all (\<lambda>k. list_ex (\<lambda>c. k = [c]) s) required)
      | _ \<Rightarrow> Inl TypeError)"

text \<open>The server's state is the database file and the lines it has logged.\<close>

datatype logentry =
    InvalidJSONDiscarded
  | MissingRequiredKeys
  | Saved
  | DatabaseSaveError error
  | DroppedOversized
  | ClientTimedOut
  | ClientError error
  | ClientDisconnected

record server =
  database :: store
  loglines :: "logentry list"

definition logged :: "logentry \<Rightarrow> server \<Rightarrow> server" where
  "logged entry st = st\<lparr>loglines := loglines st @ [entry]\<rparr>"

text \<open>
  \<open>process_message\<close> returns the state after the message, or \<open>Inl\<close> the exception that
  leaves the function: only \<open>JSONDecodeError\<close> from \<open>json.loads\<close> and the exceptions of
  \<open>save_station_data\<close> are caught.
\<close>

definition process_message :: "env \<Rightarrow> server \<Rightarrow> pystr \<Rightarrow> error + server" where
  "process_message E st message =
     (case json_loads E message of
        Inl e \<Rightarrow> if e = JSONDecodeError then Inr (logged InvalidJSONDiscarded st) else Inl e
      | Inr data \<Rightarrow>
          andthen (issubset_required data) (\<lambda>complete.
            if \<not> complete then Inr (logged MissingRequiredKeys st)
            else (case save_station_data E (database st) data of
                    (Inr u, db') \<Rightarrow> Inr (logged Saved (st\<lparr>database := db'\<rparr>))
                  | (Inl e, db') \<Rightarrow> Inr (logged (DatabaseSaveError e) (st\<lparr>database := db'\<rparr>)))))"

section \<open>handle\_client\<close>

text \<open>
  \<open>str.strip()\<close> removes the leading and trailing characters for which \<open>str.isspace\<close>
  holds.
\<close>

definition py_isspace :: "nat \<Rightarrow> bool" where
  "py_isspace c \<longleftrightarrow>
     (0x09 \<le> c \<and> c \<le> 0x0D) \<or> (0x1C \<le> c \<and> c \<le> 0x20) \<or> c = 0x85 \<or> c = 0xA0 \<or>
     c = 0x1680 \<or> (0x2000 \<le> c \<and> c \<le> 0x200A) \<or> c = 0x2028 \<or> c = 0x2029 \<or>
     c = 0x202F \<or> c = 0x205F \<or> c = 0x3000"

definition strip :: "pystr \<Rightarrow> pystr" where
  "strip s = rev (dropWhile py_isspace (rev (dropWhile py_isspace s)))"

text \<open>
  What one \<^verbatim>\<open>await asyncio.wait_for(reader.readline(), timeout=60)\<close> gives: the bytes
  of a line (empty at the end of the stream), \<open>asyncio.TimeoutError\<close>, or another
  exception of the stream (a reset connection, or the \<open>ValueError\<close> of \<open>readline\<close> for a
  line beyond the limit of the reader, 64 KiB unless set otherwise). The connection is
  described by the list of these results from the first read on; a list that ends while
  the loop is still reading leaves the connection \<open>Open\<close>.
\<close>

datatype read_result = Recv string | TimedOut | ReadFailed error

datatype status = Open | Closed

text \<open>
  The body of the loop for a line that was read: \<open>Inr\<close> the state with which the loop
  goes on, \<open>Inl\<close> the exception that leaves the loop.
\<close>

definition handle_frame :: "env \<Rightarrow> server \<Rightarrow> string \<Rightarrow> error + server" where
  "handle_frame E st data =
     (let message = strip (utf8_decode_replace E data)
      in if length message > 2048 then Inr (logged DroppedOversized st)
         else process_message E st message)"

fun handle_client :: "env \<Rightarrow> server \<Rightarrow> read_result list \<Rightarrow> server \<times> status" where
  "handle_client E st [] = (st, Open)"
| "handle_client E st (TimedOut # rest) =
     (logged ClientDisconnected (logged ClientTimedOut st), Closed)"
| "handle_client E st (ReadFailed e # rest) =
     (logged ClientDisconnected (logged (ClientError e) st), Closed)"
| "handle_client E st (Recv data # rest) =
     (if data = [] then (logged ClientDisconnected st, Closed)
      else (case handle_frame E st data of
              Inr st' \<Rightarrow> handle_client E st' rest
            | Inl e \<Rightarrow> (logged ClientDisconnected (logged (ClientError e) st), Closed)))"

section \<open>Observations and examples\<close>

text \<open>
  The rows of the global ledger in insertion order, and the cells \<open>timestamp\<close>,
  \<open>temperature\<close>, \<open>humidity\<close>, \<open>wind\<close> of the rows of any table.
\<close>

definition weather_rows :: "store \<Rightarrow> grow list" where
  "weather_rows db = (case db weather_data of Some (GlobalTable rows seq) \<Rightarrow> rows | _ \<Rightarrow> [])"

definition table_cells :: "store \<Rightarrow> pystr \<Rightarrow> (sqlval \<times> sqlval \<times> sqlval \<times> sqlval) list" where
  "table_cells db name =
     (case db name of
        Some (StationTable rows seq) \<Rightarrow>
          map (\<lambda>r. (s_timestamp r, s_temperature r, s_humidity r, s_wind r)) rows
      | Some (GlobalTable rows seq) \<Rightarrow>
          map (\<lambda>r. (g_timestamp r, g_temperature r, g_humidity r, g_wind r)) rows
      | None \<Rightarrow> [])"

text \<open>
  The global ledger exists and its ids grow with the order of insertion, as
  \<open>AUTOINCREMENT\<close> hands them out.
\<close>

definition insertion_ordered :: "store \<Rightarrow> bool" where
  "insertion_ordered db =
     (case db weather_data of
        Some (GlobalTable rows seq) \<Rightarrow> sorted_wrt (<) (map g_id rows)
      | _ \<Rightarrow> False)"

text \<open>
  \<open>data\<close> is a \<open>dict\<close> whose \<open>station_id\<close> is the string \<open>sid\<close> and whose four measurements
  are the values \<open>ts\<close>, \<open>t\<close>, \<open>h\<close>, \<open>w\<close> (other keys may be present). It is a reading when
  the measurements are floats.
\<close>

definition has_fields :: "json \<Rightarrow> pystr \<Rightarrow> json \<Rightarrow> json \<Rightarrow> json \<Rightarrow> json \<Rightarrow> bool" where
  "has_fields data sid ts t h w =
     (case data of
        JObj d \<Rightarrow>
          d (py ''station_id'') = Some (JStr sid) \<and> d (py ''timestamp'') = Some ts \<and>
          d (py ''temperature'') = Some t \<and> d (py ''humidity'') = Some h \<and>
          d (py ''wind'') = Some w
      | _ \<Rightarrow> False)"

definition is_reading :: "json \<Rightarrow> pystr \<Rightarrow> real \<Rightarrow> real \<Rightarrow> real \<Rightarrow> real \<Rightarrow> bool" where
  "is_reading data sid ts t h w = has_fields data sid (JFloat ts) (JFloat t) (JFloat h) (JFloat w)"

text \<open>
  The cell that a column of \<open>REAL\<close> affinity holds after a Python value was bound and
  stored (\<open>NULL\<close> stands in when the value cannot be bound, in which case nothing is
  stored).
\<close>

definition stored_number :: "env \<Rightarrow> json \<Rightarrow> sqlval" where
  "stored_number E a = (case bind_param a of Inr v \<Rightarrow> real_affinity E v | Inl e \<Rightarrow> SqlNull)"

text \<open>The \<open>dict\<close> that the simulator sends for a reading.\<close>

definition reading_fields :: "pystr \<Rightarrow> real \<Rightarrow> real \<Rightarrow> real \<Rightarrow> real \<Rightarrow> pystr \<Rightarrow> json option" where
  "reading_fields sid ts t h w =
     [py ''station_id'' \<mapsto> JStr sid, py ''timestamp'' \<mapsto> JFloat ts,
      py ''temperature'' \<mapsto> JFloat t, py ''humidity'' \<mapsto> JFloat h, py ''wind'' \<mapsto> JFloat w]"

definition reading :: "pystr \<Rightarrow> real \<Rightarrow> real \<Rightarrow> real \<Rightarrow> real \<Rightarrow> json" where
  "reading sid ts t h w = JObj (reading_fields sid ts t h w)"

text \<open>
  Three JSON texts of the examples, as bytes: a reading of station \<open>s1\<close>, the same with
  one more key whose value holds the byte \<open>0xFF\<close> (which no UTF-8 text contains), and the
  number \<open>5\<close>. A line is a text followed by a line feed.
\<close>

definition reading_text :: string where
  \<open>reading_text =
     ''{"station_id": "s1", "timestamp": 100.0, "temperature": 20.0, "humidity": 60.0, "wind": 7.0}''\<close>

definition note_text :: string where
  \<open>note_text =
     ''{"station_id": "s1", "timestamp": 100.0, "temperature": 20.0, "humidity": 60.0, "wind": 7.0, "note": "''
     @ [CHR 0xFF] @ ''"}''\<close>

definition number_text :: string where
  "number_text = ''5''"

definition line :: "string \<Rightarrow> string" where
  "line text = text @ [CHR 0x0A]"

text \<open>
  The library on the examples. The decoder is Python's on every line whose bytes are
  ASCII or \<open>0xFF\<close>: an ASCII byte is its own code point and each \<open>0xFF\<close> becomes U+FFFD.
  \<open>example_loads\<close> is \<open>json.loads\<close> on the three texts and on every text that is not JSON;
  the examples hold no other JSON text. No example stores an integer or a text into a
  number column.
\<close>

definition example_decode :: "string \<Rightarrow> pystr" where
  "example_decode data = map (\<lambda>b. if (of_char b :: nat) < 128 then of_char b else 0xFFFD) data"

definition example_loads :: "pystr \<Rightarrow> error + json" where
  "example_loads message =
     (if message = example_decode reading_text then Inr (reading (py ''s1'') 100 20 60 7)
      else if message = example_decode note_text
        then Inr (JObj ((reading_fields (py ''s1'') 100 20 60 7)(py ''note'' \<mapsto> JStr [0xFFFD])))
      else if message = example_decode number_text then Inr (JInt 5)
      else Inl JSONDecodeError)"

definition example_env :: env where
  "example_env =
     \<lparr>utf8_decode_replace = example_decode,
      json_loads = example_loads,
      sqlite_text_to_real = (\<lambda>s. None),
      sqlite_int_to_real = of_int,
      sqlite_num_to_text = (\<lambda>v. [])\<rparr>"

text \<open>A database on which \<open>init_database\<close> has run, and a server that starts on it.\<close>

definition fresh_db :: store where
  "fresh_db = init_database Map.empty"

definition fresh_server :: server where
  "fresh_server = \<lparr>database = fresh_db, loglines = []\<rparr>"


section \<open>Properties of extract\_station\_location\<close>





section \<open>The effect of save\_station\_data\<close>

lemma andthen_Inr_iff: "andthen r f = Inr y \<longleftrightarrow> (\<exists>x. r = Inr x \<and> f x = Inr y)"
  by (cases r) auto

lemma subscript_Inr_iff: "subscript data k = Inr v \<longleftrightarrow> (\<exists>d. data = JObj d \<and> d k = Some v)"
  by (auto simp: subscript_def split: json.splits option.splits)

lemma statements_Inr:
  assumes "statements E c data table = Inr c'"
  shows "\<exists>a1 a2 a3 a4 a5 c1 c2.
           subscript data (py ''station_id'') = Inr a1 \<and>
           subscript data (py ''timestamp'') = Inr a2 \<and>
           subscript data (py ''temperature'') = Inr a3 \<and>
           subscript data (py ''humidity'') = Inr a4 \<and>
           subscript data (py ''wind'') = Inr a5 \<and>
           insert_weather_data E c (a1, a2, a3, a4, a5) = Inr c1 \<and>
           create_station_table c1 table = Inr c2 \<and>
           insert_station_table E c2 table (a2, a3, a5, a4) = Inr c'"
  using assms unfolding statements_def andthen_Inr_iff by auto

lemma insert_weather_data_Inr:
  assumes "insert_weather_data E c (a1, a2, a3, a4, a5) = Inr c1"
  shows "\<exists>rows seq v1 v2 v3 v4 v5.
           work c weather_data = Some (GlobalTable rows seq) \<and>
           bind_param a1 = Inr v1 \<and> bind_param a2 = Inr v2 \<and> bind_param a3 = Inr v3 \<and>
           bind_param a4 = Inr v4 \<and> bind_param a5 = Inr v5 \<and>
           c1 = c\<lparr>work := (work c)(weather_data \<mapsto> GlobalTable
                  (rows @ [\<lparr>g_id = next_id (map g_id rows) seq,
                            g_station_id = text_affinity E v1,
                            g_timestamp = real_affinity E v2,
                            g_temperature = real_affinity E v3,
                            g_humidity = real_affinity E v4,
                            g_wind = real_affinity E v5\<rparr>]) (next_id (map g_id rows) seq))\<rparr>"
  using assms unfolding insert_weather_data_def
  by (auto simp: andthen_Inr_iff Let_def split: option.splits tbl.splits)

lemma create_station_table_Inr:
  assumes "create_station_table c table = Inr c2"
  shows "\<exists>name. table_name table = Inr name \<and> durable c2 = durable c \<and>
           (work c2 = work c \<and> work c name \<noteq> None \<or>
            work c2 = (work c)(name \<mapsto> StationTable [] 0) \<and> work c name = None)"
proof -
  from assms obtain name where n: "table_name table = Inr name"
    unfolding create_station_table_def by (cases "table_name table") auto
  show ?thesis
  proof (cases "work c name")
    case None
    with assms n have "c2 = c\<lparr>work := (work c)(name \<mapsto> StationTable [] 0)\<rparr>"
      unfolding create_station_table_def by (simp split: if_split_asm)
    with n None show ?thesis by simp
  next
    case (Some t)
    with assms n have "c2 = c"
      unfolding create_station_table_def by (simp split: if_split_asm)
    with n Some show ?thesis by simp
  qed
qed

lemma insert_station_table_Inr:
  assumes "insert_station_table E c table (b1, b2, b3, b4) = Inr c'"
  shows "\<exists>name v1 v2 v3 v4.
           table_name table = Inr name \<and> durable c' = durable c \<and>
           bind_param b1 = Inr v1 \<and> bind_param b2 = Inr v2 \<and>
           bind_param b3 = Inr v3 \<and> bind_param b4 = Inr v4 \<and>
           ((\<exists>rows seq. work c name = Some (GlobalTable rows seq) \<and>
               work c' = (work c)(name \<mapsto> GlobalTable
                  (rows @ [\<lparr>g_id = next_id (map g_id rows) seq,
                            g_station_id = SqlNull,
                            g_timestamp = real_affinity E v1,
                            g_temperature = real_affinity E v2,
                            g_humidity = real_affinity E v3,
                            g_wind = real_affinity E v4\<rparr>]) (next_id (map g_id rows) seq))) \<or>
            (\<exists>rows seq. work c name = Some (StationTable rows seq) \<and>
               real_affinity E v1 \<noteq> SqlNull \<and>
               work c' = (work c)(name \<mapsto> StationTable
                  (rows @ [\<lparr>s_id = next_id (map s_id rows) seq,
                            s_timestamp = real_affinity E v1,
                            s_temperature = real_affinity E v2,
                            s_humidity = real_affinity E v3,
                            s_wind = real_affinity E v4\<rparr>]) (next_id (map s_id rows) seq))))"
  using assms unfolding insert_station_table_def
  by (cases "table_name table"; cases "bind_param b1"; cases "bind_param b2";
      cases "bind_param b3"; cases "bind_param b4")
     (auto simp: Let_def split: option.split_asm tbl.split_asm if_split_asm)


lemma sanitize_Inr_iff: "sanitize a = Inr station \<longleftrightarrow> a = JStr station \<and> SAFE_NAME_match station"
  by (cases a) auto

lemma bind_param_JStr: "bind_param (JStr s) = Inr v \<Longrightarrow> v = SqlText s"
  by (simp split: if_split_asm)

lemma fold_max_ge_init: "(s::nat) \<le> fold max xs s"
  by (induction xs arbitrary: s) (auto intro: order_trans [OF max.cobounded2])

lemma fold_max_ge_elem: "x \<in> set xs \<Longrightarrow> (x::nat) \<le> fold max xs s"
proof (induction xs arbitrary: s)
  case Nil
  then show ?case by simp
next
  case (Cons y ys)
  show ?case
  proof (cases "x = y")
    case True
    have "max y s \<le> fold max ys (max y s)" by (rule fold_max_ge_init)
    with True show ?thesis by simp
  next
    case False
    with Cons show ?thesis by simp
  qed
qed

lemma next_id_gt: "x \<in> set ids \<Longrightarrow> x < next_id ids seq"
  unfolding next_id_def using fold_max_ge_elem [of x ids seq] by simp

lemma save_success:
  assumes ok: "fst (save_station_data E db data) = Inr u"
  shows "\<exists>station c. subscript data (py ''station_id'') = Inr (JStr station) \<and>
           SAFE_NAME_match station \<and>
           statements E (get_db db) data (station @ py ''_data'') = Inr c \<and>
           snd (save_station_data E db data) = work c"
proof -
  obtain station where st: "andthen (subscript data (py ''station_id'')) sanitize = Inr station"
    using ok unfolding save_station_data_def
    by (cases "andthen (subscript data (py ''station_id'')) sanitize") auto
  then obtain c where c: "statements E (get_db db) data (station @ py ''_data'') = Inr c"
    using ok unfolding save_station_data_def Let_def
    by (cases "statements E (get_db db) data (station @ py ''_data'')") auto
  from st have "subscript data (py ''station_id'') = Inr (JStr station)" "SAFE_NAME_match station"
    by (auto simp: andthen_Inr_iff sanitize_Inr_iff)
  moreover from st c have "snd (save_station_data E db data) = work c"
    unfolding save_station_data_def Let_def by (simp add: close_def commit_def)
  ultimately show ?thesis using c by blast
qed

lemma save_effect:
  assumes ok: "fst (save_station_data E db data) = Inr u"
  shows "\<exists>sid a2 a3 a4 a5 v2 v3 v4 v5 name gid extra older.
     subscript data (py ''station_id'') = Inr (JStr sid) \<and> SAFE_NAME_match sid \<and>
     subscript data (py ''timestamp'') = Inr a2 \<and> subscript data (py ''temperature'') = Inr a3 \<and>
     subscript data (py ''humidity'') = Inr a4 \<and> subscript data (py ''wind'') = Inr a5 \<and>
     bind_param a2 = Inr v2 \<and> bind_param a3 = Inr v3 \<and>
     bind_param a4 = Inr v4 \<and> bind_param a5 = Inr v5 \<and>
     table_name (sid @ py ''_data'') = Inr name \<and>
     weather_rows (snd (save_station_data E db data)) =
       weather_rows db @
       \<lparr>g_id = gid, g_station_id = SqlText sid, g_timestamp = real_affinity E v2,
        g_temperature = real_affinity E v3, g_humidity = real_affinity E v4,
        g_wind = real_affinity E v5\<rparr> # extra \<and>
     (\<forall>r\<in>set (weather_rows db). g_id r < gid) \<and>
     (\<forall>r\<in>set extra. gid < g_id r) \<and> length extra \<le> 1 \<and>
     (name \<noteq> weather_data \<longrightarrow> extra = []) \<and>
     table_cells (snd (save_station_data E db data)) name =
       older @ [(real_affinity E v2, real_affinity E v3, real_affinity E v5, real_affinity E v4)] \<and>
     length (table_cells db name) \<le> length older"
proof -
  from save_success [OF ok] obtain sid c where
    sid: "subscript data (py ''station_id'') = Inr (JStr sid)" "SAFE_NAME_match sid" and
    stm: "statements E (get_db db) data (sid @ py ''_data'') = Inr c" and
    res: "snd (save_station_data E db data) = work c"
    by blast
  from statements_Inr [OF stm] sid obtain a2 a3 a4 a5 c1 c2 where
    a: "subscript data (py ''timestamp'') = Inr a2" "subscript data (py ''temperature'') = Inr a3"
       "subscript data (py ''humidity'') = Inr a4" "subscript data (py ''wind'') = Inr a5" and
    i1: "insert_weather_data E (get_db db) (JStr sid, a2, a3, a4, a5) = Inr c1" and
    cr: "create_station_table c1 (sid @ py ''_data'') = Inr c2" and
    i2: "insert_station_table E c2 (sid @ py ''_data'') (a2, a3, a5, a4) = Inr c"
    by auto
  from insert_weather_data_Inr [OF i1] obtain rows seq v1 v2 v3 v4 v5 where
    tb: "db weather_data = Some (GlobalTable rows seq)" and
    b: "bind_param (JStr sid) = Inr v1" "bind_param a2 = Inr v2" "bind_param a3 = Inr v3"
       "bind_param a4 = Inr v4" "bind_param a5 = Inr v5" and
    w1: "work c1 = db(weather_data \<mapsto> GlobalTable
           (rows @ [\<lparr>g_id = next_id (map g_id rows) seq, g_station_id = text_affinity E v1,
                     g_timestamp = real_affinity E v2, g_temperature = real_affinity E v3,
                     g_humidity = real_affinity E v4, g_wind = real_affinity E v5\<rparr>])
           (next_id (map g_id rows) seq))"
    by (auto simp: get_db_def)
  from b(1) have "v1 = SqlText sid" by (rule bind_param_JStr)
  then have v1: "text_affinity E v1 = SqlText sid"
    by (simp add: text_affinity_def)
  define gid where "gid = next_id (map g_id rows) seq"
  define g where "g = \<lparr>g_id = gid, g_station_id = SqlText sid,
      g_timestamp = real_affinity E v2, g_temperature = real_affinity E v3,
      g_humidity = real_affinity E v4, g_wind = real_affinity E v5\<rparr>"
  have w1': "work c1 = db(weather_data \<mapsto> GlobalTable (rows @ [g]) gid)"
    using w1 v1 by (simp add: g_def gid_def)
  have wr: "weather_rows db = rows" using tb by (simp add: weather_rows_def)
  have small: "\<forall>r\<in>set (weather_rows db). g_id r < gid"
    unfolding wr gid_def by (auto intro: next_id_gt)
  from create_station_table_Inr [OF cr] obtain name where
    nm: "table_name (sid @ py ''_data'') = Inr name" and
    w2: "work c2 = work c1 \<and> work c1 name \<noteq> None \<or>
         work c2 = (work c1)(name \<mapsto> StationTable [] 0) \<and> work c1 name = None"
    by blast
  from insert_station_table_Inr [OF i2] nm b obtain u1 u2 u3 u4 where
    ub: "bind_param a2 = Inr u1" "bind_param a3 = Inr u2" "bind_param a5 = Inr u3"
        "bind_param a4 = Inr u4" and
    w3: "(\<exists>rows seq. work c2 name = Some (GlobalTable rows seq) \<and>
               work c = (work c2)(name \<mapsto> GlobalTable
                  (rows @ [\<lparr>g_id = next_id (map g_id rows) seq,
                            g_station_id = SqlNull,
                            g_timestamp = real_affinity E u1,
                            g_temperature = real_affinity E u2,
                            g_humidity = real_affinity E u3,
                            g_wind = real_affinity E u4\<rparr>]) (next_id (map g_id rows) seq))) \<or>
            (\<exists>rows seq. work c2 name = Some (StationTable rows seq) \<and>
               real_affinity E u1 \<noteq> SqlNull \<and>
               work c = (work c2)(name \<mapsto> StationTable
                  (rows @ [\<lparr>s_id = next_id (map s_id rows) seq,
                            s_timestamp = real_affinity E u1,
                            s_temperature = real_affinity E u2,
                            s_humidity = real_affinity E u3,
                            s_wind = real_affinity E u4\<rparr>]) (next_id (map s_id rows) seq)))"
    by auto
  from ub b have u: "u1 = v2" "u2 = v3" "u3 = v5" "u4 = v4" by auto
  have "\<exists>extra older.
     weather_rows (work c) = weather_rows db @ g # extra \<and>
     (\<forall>r\<in>set extra. gid < g_id r) \<and> length extra \<le> 1 \<and>
     (name \<noteq> weather_data \<longrightarrow> extra = []) \<and>
     table_cells (work c) name =
       older @ [(real_affinity E v2, real_affinity E v3, real_affinity E v5, real_affinity E v4)] \<and>
     length (table_cells db name) \<le> length older"
  proof (cases "name = weather_data")
    case True
    with w1' w2 have c2: "work c2 = work c1" by auto
    with w3 w1' True have
      wc: "work c = (work c1)(weather_data \<mapsto> GlobalTable
              (rows @ [g] @ [\<lparr>g_id = next_id (map g_id (rows @ [g])) gid, g_station_id = SqlNull,
                 g_timestamp = real_affinity E u1, g_temperature = real_affinity E u2,
                 g_humidity = real_affinity E u3, g_wind = real_affinity E u4\<rparr>])
              (next_id (map g_id (rows @ [g])) gid))"
      by auto
    have big: "gid < next_id (map g_id (rows @ [g])) gid"
      by (rule next_id_gt) (simp add: g_def)
    show ?thesis
      apply (rule exI [where x = "[\<lparr>g_id = next_id (map g_id (rows @ [g])) gid, g_station_id = SqlNull,
                 g_timestamp = real_affinity E u1, g_temperature = real_affinity E u2,
                 g_humidity = real_affinity E u3, g_wind = real_affinity E u4\<rparr>]"])
      apply (rule exI [where x = "map (\<lambda>r. (g_timestamp r, g_temperature r, g_humidity r, g_wind r)) (rows @ [g])"])
      using wc True wr tb big u
      by (simp add: weather_rows_def table_cells_def)
  next
    case False
    have keep: "work c weather_data = Some (GlobalTable (rows @ [g]) gid)"
      using w1' w2 w3 False by auto
    have wrows: "weather_rows (work c) = weather_rows db @ g # []"
      using keep wr by (simp add: weather_rows_def)
    from w2 show ?thesis
    proof
      assume old: "work c2 = work c1 \<and> work c1 name \<noteq> None"
      then have same: "work c2 name = db name" using w1' False by simp
      from w3 show ?thesis
      proof
        assume "\<exists>rows seq. work c2 name = Some (GlobalTable rows seq) \<and>
               work c = (work c2)(name \<mapsto> GlobalTable
                  (rows @ [\<lparr>g_id = next_id (map g_id rows) seq,
                            g_station_id = SqlNull,
                            g_timestamp = real_affinity E u1,
                            g_temperature = real_affinity E u2,
                            g_humidity = real_affinity E u3,
                            g_wind = real_affinity E u4\<rparr>]) (next_id (map g_id rows) seq))"
        then obtain rs sq where
          "db name = Some (GlobalTable rs sq)"
          "work c name = Some (GlobalTable
                  (rs @ [\<lparr>g_id = next_id (map g_id rs) sq,
                            g_station_id = SqlNull,
                            g_timestamp = real_affinity E u1,
                            g_temperature = real_affinity E u2,
                            g_humidity = real_affinity E u3,
                            g_wind = real_affinity E u4\<rparr>]) (next_id (map g_id rs) sq))"
          using same by auto
        then have "table_cells (work c) name = table_cells db name @
           [(real_affinity E v2, real_affinity E v3, real_affinity E v5, real_affinity E v4)]"
          using u by (simp add: table_cells_def)
        with wrows False show ?thesis by auto
      next
        assume "\<exists>rows seq. work c2 name = Some (StationTable rows seq) \<and>
               real_affinity E u1 \<noteq> SqlNull \<and>
               work c = (work c2)(name \<mapsto> StationTable
                  (rows @ [\<lparr>s_id = next_id (map s_id rows) seq,
                            s_timestamp = real_affinity E u1,
                            s_temperature = real_affinity E u2,
                            s_humidity = real_affinity E u3,
                            s_wind = real_affinity E u4\<rparr>]) (next_id (map s_id rows) seq))"
        then obtain rs sq where
          "db name = Some (StationTable rs sq)"
          "work c name = Some (StationTable
                  (rs @ [\<lparr>s_id = next_id (map s_id rs) sq,
                            s_timestamp = real_affinity E u1,
                            s_temperature = real_affinity E u2,
                            s_humidity = real_affinity E u3,
                            s_wind = real_affinity E u4\<rparr>]) (next_id (map s_id rs) sq))"
          using same by auto
        then have "table_cells (work c) name = table_cells db name @
           [(real_affinity E v2, real_affinity E v3, real_affinity E v5, real_affinity E v4)]"
          using u by (simp add: table_cells_def)
        with wrows False show ?thesis by auto
      qed
    next
      assume new: "work c2 = (work c1)(name \<mapsto> StationTable [] 0) \<and> work c1 name = None"
      then have none: "db name = None" using w1' False by (simp split: if_split_asm)
      from new w3 have
        "work c name = Some (StationTable
                  ([] @ [\<lparr>s_id = next_id (map s_id []) 0,
                            s_timestamp = real_affinity E u1,
                            s_temperature = real_affinity E u2,
                            s_humidity = real_affinity E u3,
                            s_wind = real_affinity E u4\<rparr>]) (next_id (map s_id []) 0))"
        by auto
      then have "table_cells (work c) name = table_cells db name @
           [(real_affinity E v2, real_affinity E v3, real_affinity E v5, real_affinity E v4)]"
        using u none by (simp add: table_cells_def)
      with wrows False show ?thesis by auto
    qed
  qed
  then show ?thesis
    using sid a b nm small unfolding res g_def by blast
qed

lemma save_effectE [consumes 1, case_names effect]:
  assumes "fst (save_station_data E db data) = Inr u"
  obtains sid a2 a3 a4 a5 v2 v3 v4 v5 name gid extra older where
     "subscript data (py ''station_id'') = Inr (JStr sid)" "SAFE_NAME_match sid"
     "subscript data (py ''timestamp'') = Inr a2" "subscript data (py ''temperature'') = Inr a3"
     "subscript data (py ''humidity'') = Inr a4" "subscript data (py ''wind'') = Inr a5"
     "bind_param a2 = Inr v2" "bind_param a3 = Inr v3"
     "bind_param a4 = Inr v4" "bind_param a5 = Inr v5"
     "table_name (sid @ py ''_data'') = Inr name"
     "weather_rows (snd (save_station_data E db data)) =
       weather_rows db @
       \<lparr>g_id = gid, g_station_id = SqlText sid, g_timestamp = real_affinity E v2,
        g_temperature = real_affinity E v3, g_humidity = real_affinity E v4,
        g_wind = real_affinity E v5\<rparr> # extra"
     "\<forall>r\<in>set (weather_rows db). g_id r < gid"
     "\<forall>r\<in>set extra. gid < g_id r" "length extra \<le> 1"
     "name \<noteq> weather_data \<longrightarrow> extra = []"
     "table_cells (snd (save_station_data E db data)) name =
       older @ [(real_affinity E v2, real_affinity E v3, real_affinity E v5, real_affinity E v4)]"
     "length (table_cells db name) \<le> length older"
  using save_effect [OF assms] by blast

lemma table_name_Inr: "table_name text = Inr name \<Longrightarrow> name = map ascii_lower text"
  by (auto simp: table_name_def split: list.splits if_splits)

section \<open>Evaluation on the examples\<close>

lemmas example_simps = save_station_data_def statements_def subscript_def reading_def reading_fields_def py_def
  SAFE_NAME_match_def safe_char_def dollar_at_def get_db_def commit_def close_def
  insert_weather_data_def create_station_table_def insert_station_table_def table_name_def
  ascii_letter_def ident_char_def ascii_lower_def weather_data_def next_id_def surrogate_def
  real_affinity_def text_affinity_def init_database_def fresh_db_def Let_def




section \<open>init\_database is idempotent\<close>

lemma funpow_init: "N \<ge> 1 \<Longrightarrow> (init_database ^^ N) db = init_database db"
proof (induction N)
  case 0
  then show ?case by simp
next
  case (Suc n)
  have idem: "init_database (init_database db) = init_database db"
    by (simp add: init_database_def split: option.splits)
  show ?case
  proof (cases "n = 0")
    case True
    then show ?thesis by simp
  next
    case False
    with Suc have "(init_database ^^ n) db = init_database db" by simp
    then show ?thesis using idem by simp
  qed
qed

text \<open>
  C7. \<open>init_database\<close> is idempotent: for every \<open>N \<ge> 1\<close> and every database, calling it \<open>N\<close>
  times gives the same database (the same table definition of the global ledger) as
  calling it once, and every table that existed before is still there with the same
  rows.
\<close>

theorem init_database_idempotent:
  "N \<ge> 1 \<Longrightarrow>
     (init_database ^^ N) db = init_database db \<and>
     (\<forall>name t. db name = Some t \<longrightarrow> (init_database ^^ N) db name = Some t)"
  by (auto simp: funpow_init init_database_def split: option.splits)

theorem init_database_idempotent_witness:
  "(init_database ^^ 3) fresh_db = init_database fresh_db \<and>
   (init_database ^^ 3) fresh_db weather_data = Some (GlobalTable [] 0)"
proof -
  have "(1::nat) \<le> 3" by simp
  from init_database_idempotent [OF this, of fresh_db]
  show ?thesis by (simp add: fresh_db_def init_database_def)
qed

section \<open>save\_station\_data commits all or nothing\<close>



section \<open>The two inserts of a reading\<close>

lemma has_fields_subscript:
  assumes "has_fields data sid ts t h w"
  shows "subscript data (py ''station_id'') = Inr (JStr sid)"
        "subscript data (py ''timestamp'') = Inr ts"
        "subscript data (py ''temperature'') = Inr t"
        "subscript data (py ''humidity'') = Inr h"
        "subscript data (py ''wind'') = Inr w"
  using assms by (auto simp: has_fields_def subscript_def split: json.splits)

lemma stored_number_bound: "bind_param a = Inr v \<Longrightarrow> real_affinity E v = stored_number E a"
  by (simp add: stored_number_def)

lemma stored_number_JFloat: "stored_number E (JFloat x) = SqlReal x"
  by (simp add: stored_number_def real_affinity_def)

lemma record_effect:
  assumes rd: "has_fields data sid ts t h w"
    and ok: "fst (save_station_data E db data) = Inr u"
  shows "\<exists>gid extra older.
     table_name (sid @ py ''_data'') = Inr (map ascii_lower (sid @ py ''_data'')) \<and>
     weather_rows (snd (save_station_data E db data)) =
       weather_rows db @
       \<lparr>g_id = gid, g_station_id = SqlText sid, g_timestamp = stored_number E ts,
        g_temperature = stored_number E t, g_humidity = stored_number E h,
        g_wind = stored_number E w\<rparr> # extra \<and>
     (\<forall>r\<in>set (weather_rows db). g_id r < gid) \<and>
     (\<forall>r\<in>set extra. gid < g_id r) \<and> length extra \<le> 1 \<and>
     (map ascii_lower (sid @ py ''_data'') \<noteq> weather_data \<longrightarrow> extra = []) \<and>
     table_cells (snd (save_station_data E db data)) (map ascii_lower (sid @ py ''_data'')) =
       older @ [(stored_number E ts, stored_number E t, stored_number E w, stored_number E h)] \<and>
     length (table_cells db (map ascii_lower (sid @ py ''_data''))) \<le> length older"
  using ok
proof (cases rule: save_effectE)
  case (effect sid' a2 a3 a4 a5 v2 v3 v4 v5 name gid extra older)
  note s = has_fields_subscript [OF rd]
  from effect(1) s(1) have sid: "sid' = sid" by simp
  from effect(3,4,5,6) s have a: "a2 = ts" "a3 = t" "a4 = h" "a5 = w"
    by simp_all
  from effect(7,8,9,10) a have v:
    "real_affinity E v2 = stored_number E ts" "real_affinity E v3 = stored_number E t"
    "real_affinity E v4 = stored_number E h" "real_affinity E v5 = stored_number E w"
    by (simp_all add: stored_number_bound)
  from effect(11) sid have name: "name = map ascii_lower (sid @ py ''_data'')"
    by (auto dest: table_name_Inr)
  show ?thesis
    using effect(11-18) unfolding sid v name by blast
qed

lemma reading_effect:
  assumes rd: "is_reading data sid ts t h w"
    and ok: "fst (save_station_data E db data) = Inr u"
  shows "\<exists>gid extra older.
     table_name (sid @ py ''_data'') = Inr (map ascii_lower (sid @ py ''_data'')) \<and>
     weather_rows (snd (save_station_data E db data)) =
       weather_rows db @
       \<lparr>g_id = gid, g_station_id = SqlText sid, g_timestamp = SqlReal ts,
        g_temperature = SqlReal t, g_humidity = SqlReal h, g_wind = SqlReal w\<rparr> # extra \<and>
     (\<forall>r\<in>set (weather_rows db). g_id r < gid) \<and>
     (\<forall>r\<in>set extra. gid < g_id r) \<and> length extra \<le> 1 \<and>
     (map ascii_lower (sid @ py ''_data'') \<noteq> weather_data \<longrightarrow> extra = []) \<and>
     table_cells (snd (save_station_data E db data)) (map ascii_lower (sid @ py ''_data'')) =
       older @ [(SqlReal ts, SqlReal t, SqlReal w, SqlReal h)] \<and>
     length (table_cells db (map ascii_lower (sid @ py ''_data''))) \<le> length older"
  using record_effect [OF rd [unfolded is_reading_def] ok]
  by (simp only: stored_number_JFloat)

lemma has_fields_reading:
  "has_fields (reading sid ts t h w) sid (JFloat ts) (JFloat t) (JFloat h) (JFloat w)"
  by (simp add: has_fields_def reading_def reading_fields_def py_def)

lemma is_reading_reading: "is_reading (reading sid ts t h w) sid ts t h w"
  by (simp add: is_reading_def has_fields_reading)



section \<open>get\_latest\_data\<close>

lemma weather_rows_nonempty:
  "weather_rows db \<noteq> [] \<Longrightarrow> \<exists>seq. db weather_data = Some (GlobalTable (weather_rows db) seq)"
  by (auto simp: weather_rows_def split: option.splits tbl.splits)

lemma insertion_ordered_iff:
  "insertion_ordered db \<longleftrightarrow>
     (\<exists>seq. db weather_data = Some (GlobalTable (weather_rows db) seq)) \<and>
     sorted_wrt (<) (map g_id (weather_rows db))"
  by (auto simp: insertion_ordered_def weather_rows_def split: option.splits tbl.splits)

lemma save_station_data_Inl:
  "fst (save_station_data E db data) = Inl e \<Longrightarrow> snd (save_station_data E db data) = db"
  unfolding save_station_data_def Let_def
  by (auto simp: close_def get_db_def split: sum.splits)

lemma get_latest_data_ordered:
  assumes "insertion_ordered db" and "0 \<le> limit"
  shows "get_latest_data db limit =
           Inr (take (nat limit) (rev (map select_columns (weather_rows db))))"
proof -
  from assms(1) obtain seq where
    t: "db weather_data = Some (GlobalTable (weather_rows db) seq)" and
    s: "sorted_wrt (<) (map g_id (weather_rows db))"
    by (auto simp: insertion_ordered_iff)
  from s have "sorted (map g_id (weather_rows db))" by (rule strict_sorted_imp_sorted)
  then have "sort_key g_id (weather_rows db) = weather_rows db" by (rule sort_key_id_if_sorted)
  with t assms(2) show ?thesis
    by (simp add: get_latest_data_def Let_def take_map rev_map)
qed

lemma save_keeps_insertion_order:
  assumes "insertion_ordered db"
  shows "insertion_ordered (snd (save_station_data E db data))"
proof (cases "fst (save_station_data E db data)")
  case (Inl e)
  then show ?thesis using assms by (simp add: save_station_data_Inl)
next
  case (Inr u)
  then show ?thesis
  proof (cases rule: save_effectE)
    case (effect sid a2 a3 a4 a5 v2 v3 v4 v5 name gid extra older)
    let ?g = "\<lparr>g_id = gid, g_station_id = SqlText sid, g_timestamp = real_affinity E v2,
        g_temperature = real_affinity E v3, g_humidity = real_affinity E v4,
        g_wind = real_affinity E v5\<rparr>"
    from assms have old: "sorted_wrt (<) (map g_id (weather_rows db))"
      by (simp add: insertion_ordered_iff)
    from effect(15) have ex: "sorted_wrt (<) (map g_id extra)"
      by (cases extra) auto
    have "sorted_wrt (<) (map g_id (weather_rows db @ ?g # extra))"
      using old ex effect(13,14) by (fastforce simp: sorted_wrt_append)
    with effect(12) have srt: "sorted_wrt (<) (map g_id (weather_rows (snd (save_station_data E db data))))"
      by simp
    from effect(12) have "weather_rows (snd (save_station_data E db data)) \<noteq> []" by simp
    from weather_rows_nonempty [OF this] srt show ?thesis
      by (simp add: insertion_ordered_iff)
  qed
qed


lemma init_keeps_insertion_order:
  "insertion_ordered db \<Longrightarrow> insertion_ordered (init_database db)"
  by (auto simp: insertion_ordered_def init_database_def split: option.splits)






text \<open>
  After a reading was saved under a station whose table is not the global ledger, the
  newest row of the ledger is that reading.
\<close>

lemma latest_after_save:
  assumes rd: "is_reading data sid ts t h w"
    and ok: "fst (save_station_data E db data) = Inr u"
    and ord: "insertion_ordered db"
    and other: "map ascii_lower (sid @ py ''_data'') \<noteq> weather_data"
  shows "get_latest_data (snd (save_station_data E db data)) 1 =
           Inr [(SqlText sid, SqlReal ts, SqlReal t, SqlReal h, SqlReal w)]"
proof -
  from reading_effect [OF rd ok] other obtain gid where
    w: "weather_rows (snd (save_station_data E db data)) =
       weather_rows db @
       [\<lparr>g_id = gid, g_station_id = SqlText sid, g_timestamp = SqlReal ts,
        g_temperature = SqlReal t, g_humidity = SqlReal h, g_wind = SqlReal w\<rparr>]"
    by auto
  have "insertion_ordered (snd (save_station_data E db data))"
    using ord by (rule save_keeps_insertion_order)
  then have "get_latest_data (snd (save_station_data E db data)) 1 =
     Inr (take (nat 1) (rev (map select_columns (weather_rows (snd (save_station_data E db data))))))"
    by (rule get_latest_data_ordered) simp
  then show ?thesis unfolding w by (simp add: select_columns_def)
qed

text \<open>
  C4 asks that the reading just saved is the first row of \<open>get_latest_data\<close> with limit 1.
  For the station \<open>weather\<close> the table of the station, \<open>weather_data\<close>, is the global
  ledger itself: the call returns normally, the second \<open>INSERT\<close> adds one more row to the
  ledger, and the newest row has no \<open>station_id\<close> and has humidity and wind exchanged.
\<close>

theorem latest_after_weather_station:
  "fst (save_station_data example_env fresh_db (reading (py ''weather'') 100 20 60 7)) = Inr () \<and>
   get_latest_data (snd (save_station_data example_env fresh_db
       (reading (py ''weather'') 100 20 60 7))) 1
     = Inr [(SqlNull, SqlReal 100, SqlReal 20, SqlReal 7, SqlReal 60)]"
  by (simp add: example_simps get_latest_data_def select_columns_def)

section \<open>sanitize and a final line feed\<close>

text \<open>
  What \<open>SAFE_NAME.match\<close> accepts: a non-empty run of safe characters, alone or followed
  by one line feed. Every other \<open>station_id\<close> is rejected with \<open>ValueError\<close> before the
  database is opened.
\<close>

lemma safe_char_10: "\<not> safe_char 10"
  by (simp add: safe_char_def)

lemma SAFE_NAME_match_ex:
  "SAFE_NAME_match name \<longleftrightarrow>
     (\<exists>i. 1 \<le> i \<and> i \<le> length (takeWhile safe_char name) \<and> dollar_at name i)"
  unfolding SAFE_NAME_match_def list_ex_iff by auto

lemma SAFE_NAME_match_iff:
  "SAFE_NAME_match name \<longleftrightarrow>
     (name \<noteq> [] \<and> list_all safe_char name) \<or>
     (\<exists>p. p \<noteq> [] \<and> list_all safe_char p \<and> name = p @ [10])"
proof
  assume "SAFE_NAME_match name"
  then obtain i where i: "1 \<le> i" "i \<le> length (takeWhile safe_char name)" and d: "dollar_at name i"
    by (auto simp: SAFE_NAME_match_ex)
  have le: "length (takeWhile safe_char name) \<le> length name"
    by (rule length_takeWhile_le)
  have split: "name = takeWhile safe_char name @ dropWhile safe_char name" by simp
  from d consider "i = length name" | "Suc i = length name" "name ! i = 10"
    by (auto simp: dollar_at_def)
  then show "(name \<noteq> [] \<and> list_all safe_char name) \<or>
     (\<exists>p. p \<noteq> [] \<and> list_all safe_char p \<and> name = p @ [10])"
  proof cases
    case 1
    with i le have "length (takeWhile safe_char name) = length name" by simp
    then have "dropWhile safe_char name = []"
      using split by (metis append_eq_conv_conj drop_all order_refl)
    then have "list_all safe_char name" by (simp add: list_all_iff dropWhile_eq_Nil_conv)
    moreover from 1 i have "name \<noteq> []" by auto
    ultimately show ?thesis by simp
  next
    case 2
    have "length (takeWhile safe_char name) \<noteq> length name"
    proof
      assume "length (takeWhile safe_char name) = length name"
      then have "dropWhile safe_char name = []"
        using split by (metis append_eq_conv_conj drop_all order_refl)
      then have "\<forall>x\<in>set name. safe_char x" by (simp add: dropWhile_eq_Nil_conv)
      moreover from 2 have "i < length name" by simp
      then have "name ! i \<in> set name" by (rule nth_mem)
      ultimately show False using 2 safe_char_10 by auto
    qed
    with i le 2 have k: "length (takeWhile safe_char name) = i" by simp
    define p where "p = takeWhile safe_char name"
    have lp: "length p = i" using k by (simp add: p_def)
    have "length (takeWhile safe_char name) + length (dropWhile safe_char name) = length name"
      by (metis length_append takeWhile_dropWhile_id)
    with k 2 have "length (dropWhile safe_char name) = 1" by simp
    then obtain c where c: "dropWhile safe_char name = [c]"
      by (cases "dropWhile safe_char name") auto
    with split have nm: "name = p @ [c]" by (simp add: p_def)
    with lp 2 have "c = 10" by (metis nth_append_length)
    moreover have "list_all safe_char p"
      unfolding p_def list_all_iff by (auto dest: set_takeWhileD)
    moreover from lp i have "p \<noteq> []" by auto
    ultimately show ?thesis using nm by blast
  qed
next
  assume "(name \<noteq> [] \<and> list_all safe_char name) \<or>
     (\<exists>p. p \<noteq> [] \<and> list_all safe_char p \<and> name = p @ [10])"
  then show "SAFE_NAME_match name"
  proof
    assume a: "name \<noteq> [] \<and> list_all safe_char name"
    then have tw: "takeWhile safe_char name = name"
      by (simp add: list_all_iff takeWhile_eq_all_conv)
    from a show ?thesis
      unfolding SAFE_NAME_match_ex tw
      by (intro exI [where x = "length name"]) (auto simp: dollar_at_def Suc_le_eq)
  next
    assume "\<exists>p. p \<noteq> [] \<and> list_all safe_char p \<and> name = p @ [10]"
    then obtain p where p: "p \<noteq> []" "list_all safe_char p" "name = p @ [10]" by blast
    then have tw: "takeWhile safe_char name = p"
      by (simp add: list_all_iff safe_char_10)
    from p(1,3) show ?thesis
      unfolding SAFE_NAME_match_ex tw
      by (intro exI [where x = "length p"]) (auto simp: dollar_at_def Suc_le_eq)
  qed
qed

lemma unsafe_station_id_rejected:
  assumes "subscript data (py ''station_id'') = Inr (JStr sid)"
    and "\<not> list_all safe_char sid"
    and "\<not> (\<exists>p. p \<noteq> [] \<and> list_all safe_char p \<and> sid = p @ [10])"
  shows "save_station_data E db data = (Inl ValueError, db)"
proof -
  from assms(2,3) have "\<not> SAFE_NAME_match sid" by (simp add: SAFE_NAME_match_iff)
  with assms(1) show ?thesis by (simp add: save_station_data_def)
qed

text \<open>
  C1 asks that every \<open>station_id\<close> with a character outside the safe set is rejected by
  \<open>sanitize\<close> with \<open>ValueError\<close>. The line feed is outside the set, yet \<open>sanitize\<close> returns
  an identifier that ends in one, because \<open>$\<close> matches before a final line feed.
  \<open>save_station_data\<close> then runs the first \<open>INSERT\<close> and fails in \<open>CREATE TABLE\<close> with an
  error of SQLite; the transaction is dropped and the database is unchanged.
\<close>

theorem newline_station_id_accepted:
  "\<not> safe_char 10 \<and>
   sanitize (JStr (py ''abc'' @ [10])) = Inr (py ''abc'' @ [10]) \<and>
   save_station_data example_env fresh_db (reading (py ''abc'' @ [10]) 100 20 60 7)
     = (Inl SqliteError, fresh_db)"
  by (simp add: example_simps)

section \<open>handle\_client\<close>

lemma strip_trailing:
  assumes "xs \<noteq> []" "\<not> py_isspace (hd xs)" "\<not> py_isspace (last xs)" "list_all py_isspace ws"
  shows "strip (xs @ ws) = xs"
proof -
  from assms(1,2) have a: "dropWhile py_isspace (xs @ ws) = xs @ ws"
    by (cases xs) auto
  from assms(1,3) have b: "dropWhile py_isspace (rev xs) = rev xs"
    by (cases "rev xs") (auto simp: hd_rev [symmetric])
  have "dropWhile py_isspace (rev ws @ rev xs) = dropWhile py_isspace (rev xs)"
    using assms(4) by (intro dropWhile_append2) (auto simp: list_all_iff)
  with a b show ?thesis by (simp add: strip_def)
qed

lemma length_example_decode: "length (example_decode data) = length data"
  by (simp add: example_decode_def)

lemma strip_example_line:
  assumes "text \<noteq> []" "\<not> py_isspace (hd (example_decode text))"
    "\<not> py_isspace (last (example_decode text))"
  shows "strip (example_decode (line (text @ replicate n (CHR '' '')))) = example_decode text"
proof -
  have "example_decode (line (text @ replicate n (CHR '' ''))) =
          example_decode text @ (replicate n 32 @ [10])"
    by (simp add: example_decode_def line_def)
  moreover have "list_all py_isspace (replicate n 32 @ [10])"
    by (simp add: list_all_iff py_isspace_def)
  moreover from assms(1) have "example_decode text \<noteq> []"
    by (simp add: example_decode_def)
  ultimately show ?thesis using assms(2,3) by (simp add: strip_trailing)
qed

lemma example_texts_distinct:
  "example_decode note_text \<noteq> example_decode reading_text"
  "example_decode number_text \<noteq> example_decode reading_text"
  "example_decode number_text \<noteq> example_decode note_text"
proof -
  have "length (example_decode note_text) \<noteq> length (example_decode reading_text)"
    by (simp add: length_example_decode note_text_def reading_text_def)
  then show "example_decode note_text \<noteq> example_decode reading_text" by auto
  have "length (example_decode number_text) \<noteq> length (example_decode reading_text)"
    by (simp add: length_example_decode number_text_def reading_text_def)
  then show "example_decode number_text \<noteq> example_decode reading_text" by auto
  have "length (example_decode number_text) \<noteq> length (example_decode note_text)"
    by (simp add: length_example_decode number_text_def note_text_def)
  then show "example_decode number_text \<noteq> example_decode note_text" by auto
qed

lemma strip_padded_reading:
  "strip (example_decode (line (reading_text @ replicate n (CHR '' '')))) = example_decode reading_text"
  by (rule strip_example_line) (simp_all add: example_decode_def reading_text_def py_isspace_def)

lemma strip_reading_line: "strip (example_decode (line reading_text)) = example_decode reading_text"
  using strip_padded_reading [of 0] by simp


lemma strip_number_line: "strip (example_decode (line number_text)) = example_decode number_text"
  using strip_example_line [of number_text 0]
  by (simp add: example_decode_def number_text_def py_isspace_def)



lemma line_not_empty: "line text \<noteq> []"
  by (simp add: line_def)

lemma example_env_sel:
  "utf8_decode_replace example_env = example_decode"
  "json_loads example_env = example_loads"
  by (simp_all add: example_env_def)










text \<open>
  A line that decodes to a JSON object without one of the required keys is discarded
  with the warning for missing keys; nothing is stored and the loop goes on.
\<close>

lemma incomplete_object_discarded:
  assumes "json_loads E message = Inr (JObj d)" and "key \<in> set required" and "d key = None"
  shows "process_message E st message = Inr (logged MissingRequiredKeys st)"
proof -
  from assms(2,3) have "\<not> list_all (\<lambda>k. d k \<noteq> None) required"
    by (auto simp: list_all_iff)
  with assms(1) show ?thesis
    by (simp add: process_message_def issubset_required_def)
qed

lemma incomplete_frame_discarded:
  assumes "data \<noteq> []" and "length (strip (utf8_decode_replace E data)) \<le> 2048"
    and "json_loads E (strip (utf8_decode_replace E data)) = Inr (JObj d)"
    and "key \<in> set required" and "d key = None"
  shows "handle_client E st (Recv data # rest) = handle_client E (logged MissingRequiredKeys st) rest"
  using assms(1,2) incomplete_object_discarded [OF assms(3,4,5), of st]
  by (simp add: handle_frame_def)

text \<open>
  C6 asks that every decodable line without the required fields is discarded and that
  the handler goes on reading. The line \<open>5\<close> decodes (to the number 5) and has none of
  the fields, but \<open>required.issubset(5)\<close> raises \<open>TypeError\<close>, which \<open>process_message\<close> does
  not catch: the handler logs a client error and closes the connection, and the valid
  line that follows is never read.
\<close>

theorem number_frame_closes_connection:
  "handle_client example_env fresh_server [Recv (line number_text), Recv (line reading_text)] =
     (logged ClientDisconnected (logged (ClientError TypeError) fresh_server), Closed)"
proof -
  have "length (example_decode number_text) \<le> 2048"
    by (simp add: length_example_decode number_text_def)
  then have "handle_frame example_env fresh_server (line number_text) = Inl TypeError"
    by (simp add: handle_frame_def example_env_sel strip_number_line process_message_def
        example_loads_def example_texts_distinct issubset_required_def)
  then show ?thesis by (simp add: line_not_empty)
qed











end
